theory Spec2Isabelle
  imports Main
begin

section \<open>JavaScript strings\<close>

text \<open>
  A JavaScript string is modelled as a \<^typ>\<open>string\<close>: a list of 8-bit characters, non-ASCII
  text (the emoji of the response messages) standing as its UTF-8 bytes. The character
  classes of the source (\<open>\s\<close>, \<open>\d\<close>, \<open>\w\<close>, \<open>[a-zA-Z]\<close>) and \<open>toLowerCase\<close> act on the
  ASCII range; a byte above it is left as it is and belongs to no class.
\<close>

definition isSpace :: "char \<Rightarrow> bool" where
  "isSpace c = (let n = (of_char c :: nat) in (9 \<le> n \<and> n \<le> 13) \<or> n = 32)"

definition isDigit :: "char \<Rightarrow> bool" where
  "isDigit c = (let n = (of_char c :: nat) in 48 \<le> n \<and> n \<le> 57)"

definition isAlpha :: "char \<Rightarrow> bool" where
  "isAlpha c = (let n = (of_char c :: nat) in (65 \<le> n \<and> n \<le> 90) \<or> (97 \<le> n \<and> n \<le> 122))"

definition isWord :: "char \<Rightarrow> bool" where
  "isWord c = (isAlpha c \<or> isDigit c \<or> c = CHR ''_'')"

definition isUrlChar :: "char \<Rightarrow> bool" where
  "isUrlChar c = (isAlpha c \<or> isDigit c \<or> c = CHR ''.'' \<or> c = CHR ''-'')"

definition isLineTerminator :: "char \<Rightarrow> bool" where
  "isLineTerminator c = (let n = (of_char c :: nat) in n = 10 \<or> n = 13)"

definition lowerChar :: "char \<Rightarrow> char" where
  "lowerChar c =
     (let n = (of_char c :: nat) in if 65 \<le> n \<and> n \<le> 90 then char_of (n + 32) else c)"

definition toLowerCase :: "string \<Rightarrow> string" where
  "toLowerCase s = map lowerChar s"

definition trim :: "string \<Rightarrow> string" where
  "trim s = rev (dropWhile isSpace (rev (dropWhile isSpace s)))"

fun startsWith :: "string \<Rightarrow> string \<Rightarrow> bool" where
  "startsWith s [] = True"
| "startsWith [] (p # ps) = False"
| "startsWith (c # cs) (p # ps) = (c = p \<and> startsWith cs ps)"

fun str_includes :: "string \<Rightarrow> string \<Rightarrow> bool" where
  "str_includes [] p = (p = [])"
| "str_includes (c # cs) p = (startsWith (c # cs) p \<or> str_includes cs p)"

definition substring0 :: "string \<Rightarrow> nat \<Rightarrow> string" where
  \<comment> \<open>\<open>s.substring(0, n)\<close>\<close>
  "substring0 s n = take n s"

fun string_of_nat :: "nat \<Rightarrow> string" where
  \<comment> \<open>a non-negative integer inside a template literal\<close>
  "string_of_nat n =
     (if n < 10 then [char_of (48 + n)]
      else string_of_nat (n div 10) @ [char_of (48 + n mod 10)])"

definition parseInt :: "string \<Rightarrow> nat" where
  \<comment> \<open>\<open>parseInt\<close> of a run of decimal digits, as the pattern \<open>\d+\<close> captures it. The value
      is the code's while it stays below \<open>2 ^ 53\<close>, where a JavaScript number is exact.\<close>
  "parseInt ds = foldl (\<lambda>a c. 10 * a + (of_char c - 48)) 0 ds"

fun removeAll_from :: "string list \<Rightarrow> nat \<Rightarrow> string \<Rightarrow> string" where
  \<comment> \<open>the scan of \<open>s.replace(/p1|p2|.../g, '')\<close>: \<open>k\<close> characters of a match are still to be
      dropped; at a position where an alternative matches (the first listed wins), the
      match is dropped and the scan goes on behind it\<close>
  "removeAll_from alts k [] = []"
| "removeAll_from alts (Suc k) (c # cs) = removeAll_from alts k cs"
| "removeAll_from alts 0 (c # cs) =
     (case find (startsWith (c # cs)) alts of
        Some p \<Rightarrow> removeAll_from alts (length p - 1) cs
      | None \<Rightarrow> c # removeAll_from alts 0 cs)"

definition removeAll :: "string list \<Rightarrow> string \<Rightarrow> string" where
  "removeAll alts s = removeAll_from alts 0 s"

definition hexDigit :: "nat \<Rightarrow> char" where
  "hexDigit d = (if d < 10 then char_of (48 + d) else char_of (55 + d))"

definition isUnreserved :: "char \<Rightarrow> bool" where
  "isUnreserved c = (isAlpha c \<or> isDigit c \<or> c \<in> set ''-_.!~*'()'')"

definition encodeURIComponent :: "string \<Rightarrow> string" where
  "encodeURIComponent s =
     concat (map (\<lambda>c. if isUnreserved c then [c]
                        else [CHR ''%'', hexDigit (of_char c div 16), hexDigit (of_char c mod 16)]) s)"

definition utf8 :: "nat list \<Rightarrow> string" where
  "utf8 bs = map char_of bs"

subsection \<open>The four patterns of \<open>processCommand\<close>\<close>

text \<open>
  \<open>String.prototype.match\<close> with a pattern that has no \<open>g\<close> flag returns the leftmost
  match: the pattern is tried at the start of the string, then one character further,
  and so on. Each pattern below is the attempt at one position, with the greedy
  quantifiers and their backtracking written out.
\<close>

fun firstMatch :: "(string \<Rightarrow> 'a option) \<Rightarrow> string \<Rightarrow> 'a option" where
  "firstMatch m [] = m []"
| "firstMatch m (c # cs) = (case m (c # cs) of Some r \<Rightarrow> Some r | None \<Rightarrow> firstMatch m cs)"

fun domainSplit :: "string \<Rightarrow> nat \<Rightarrow> string option" where
  \<comment> \<open>\<open>[a-zA-Z0-9.-]+\<close> has taken all of \<open>r\<close> and gives characters back one at a time,
      down to one, until \<open>\.[a-zA-Z]{2,}\<close> matches behind it\<close>
  "domainSplit r 0 = None"
| "domainSplit r (Suc k) =
     (let rest = drop (Suc k) r; tld = takeWhile isAlpha (drop 1 rest) in
      if startsWith rest ''.'' \<and> 2 \<le> length tld
      then Some (take (Suc k) r @ ''.'' @ tld)
      else domainSplit r k)"

definition urlAt :: "string \<Rightarrow> string option" where
  \<comment> \<open>\<open>/open\s+([a-zA-Z0-9.-]+\.[a-zA-Z]{2,})/\<close>, group 1\<close>
  "urlAt s =
     (if startsWith s ''open'' \<and> takeWhile isSpace (drop 4 s) \<noteq> []
      then (let r = takeWhile isUrlChar (dropWhile isSpace (drop 4 s))
            in domainSplit r (length r))
      else None)"

definition urlMatch :: "string \<Rightarrow> string option" where
  "urlMatch cmd = firstMatch urlAt cmd"

definition wordAfterSpace :: "string \<Rightarrow> string option" where
  \<comment> \<open>\<open>\s+(\w+)\<close>\<close>
  "wordAfterSpace s =
     (let w = takeWhile isWord (dropWhile isSpace s) in
      if takeWhile isSpace s = [] \<or> w = [] then None else Some w)"

definition contactAt :: "string \<Rightarrow> string option" where
  \<comment> \<open>\<open>/(?:message|text)\s+(\w+)/\<close>, group 1\<close>
  "contactAt s =
     (if startsWith s ''message'' then wordAfterSpace (drop 7 s)
      else if startsWith s ''text'' then wordAfterSpace (drop 4 s)
      else None)"

definition contactMatch :: "string \<Rightarrow> string option" where
  "contactMatch cmd = firstMatch contactAt cmd"

fun restOfLine :: "string \<Rightarrow> nat \<Rightarrow> string option" where
  \<comment> \<open>\<open>\s+\<close> has taken \<open>k\<close> characters of \<open>s\<close> and gives them back one at a time, down to
      one, until \<open>(.+)\<close> finds a character that is no line terminator\<close>
  "restOfLine s 0 = None"
| "restOfLine s (Suc k) =
     (let d = takeWhile (\<lambda>c. \<not> isLineTerminator c) (drop (Suc k) s) in
      if d \<noteq> [] then Some d else restOfLine s k)"

definition appAt :: "string \<Rightarrow> string option" where
  \<comment> \<open>\<open>/(?:open|launch|start)\s+(.+)/\<close>, group 1\<close>
  "appAt s =
     (if startsWith s ''open'' then restOfLine (drop 4 s) (length (takeWhile isSpace (drop 4 s)))
      else if startsWith s ''launch'' then restOfLine (drop 6 s) (length (takeWhile isSpace (drop 6 s)))
      else if startsWith s ''start'' then restOfLine (drop 5 s) (length (takeWhile isSpace (drop 5 s)))
      else None)"

definition appMatch :: "string \<Rightarrow> string option" where
  "appMatch cmd = firstMatch appAt cmd"

definition unitAt :: "string \<Rightarrow> string option" where
  \<comment> \<open>\<open>(seconds?|minutes?)\<close>\<close>
  "unitAt s =
     (if startsWith s ''seconds'' then Some ''seconds''
      else if startsWith s ''second'' then Some ''second''
      else if startsWith s ''minutes'' then Some ''minutes''
      else if startsWith s ''minute'' then Some ''minute''
      else None)"

definition timeAt :: "string \<Rightarrow> (string \<times> string) option" where
  \<comment> \<open>\<open>/(\d+)\s*(seconds?|minutes?)/\<close>, groups 1 and 2\<close>
  "timeAt s =
     (let ds = takeWhile isDigit s in
      if ds = [] then None
      else (case unitAt (dropWhile isSpace (dropWhile isDigit s)) of
              None \<Rightarrow> None
            | Some u \<Rightarrow> Some (ds, u)))"

definition timeMatch :: "string \<Rightarrow> (string \<times> string) option" where
  "timeMatch cmd = firstMatch timeAt cmd"

section \<open>The host\<close>

text \<open>
  What \<open>server.js\<close> reads from the operating system is a parameter of the model: the
  results of \<open>os.*\<close>, of the clock, and of \<open>child_process.exec\<close> for every command line.
  A value thrown or a promise rejected is an \<open>Inl\<close>; every value the source throws is an
  \<open>Error\<close> object, with a message and possibly a code (the exit code of a child process,
  or the name of a system error).
\<close>

datatype err_code = NoCode | ExitCode int | SysCode string

record js_error =
  code :: err_code
  message :: string

definition new_Error :: "string \<Rightarrow> js_error" where
  "new_Error msg = \<lparr>code = NoCode, message = msg\<rparr>"

datatype exec_result = ExecFailed js_error | ExecDone string string

record iface =
  address :: string
  family :: string
  internal :: bool

record cpu =
  model :: string
  speed :: nat

record host =
  platform :: string
  arch :: string
  hostname :: string
  uptime :: nat
  cpus :: "cpu list"
  networkInterfaces :: "(string \<times> iface list option) list"
  exec :: "string \<Rightarrow> exec_result"
  localeTimeString :: string
  localeDateString :: string
  totalGB :: string
  freeGB :: string
  usedGB :: string
  usedGB_of_strings :: string
  usagePercent :: string

text \<open>
  \<^term>\<open>uptime\<close> is \<open>os.uptime()\<close> in whole seconds. The last five fields are the
  floating-point renderings of the memory figures: \<open>(os.totalmem() / 1024 ** 3).toFixed(2)\<close>,
  the same of \<open>os.freemem()\<close> and of their difference, \<open>(totalMem - freeMem).toFixed(2)\<close>
  on the two rendered strings, and \<open>((usedMem / totalMem) * 100).toFixed(1)\<close>.
\<close>

definition nl :: string where
  "nl = [CHR 0x0A]"

definition dq :: string where
  "dq = [CHR 0x22]"

definition bs :: string where
  "bs = [CHR 0x5C]"

definition CHECK_MARK :: string where "CHECK_MARK = utf8 [0xE2, 0x9C, 0x85]"
definition WARNING_SIGN :: string where "WARNING_SIGN = utf8 [0xE2, 0x9A, 0xA0, 0xEF, 0xB8, 0x8F]"
definition CLOCK_FACE :: string where "CLOCK_FACE = utf8 [0xF0, 0x9F, 0x95, 0x90]"
definition CALENDAR :: string where "CALENDAR = utf8 [0xF0, 0x9F, 0x93, 0x85]"
definition SUN_CLOUD :: string where "SUN_CLOUD = utf8 [0xF0, 0x9F, 0x8C, 0xA4, 0xEF, 0xB8, 0x8F]"
definition ABACUS :: string where "ABACUS = utf8 [0xF0, 0x9F, 0xA7, 0xAE]"
definition MEMO :: string where "MEMO = utf8 [0xF0, 0x9F, 0x93, 0x9D]"
definition TELEPHONE :: string where "TELEPHONE = utf8 [0xF0, 0x9F, 0x93, 0x9E]"
definition SPEECH_BALLOON :: string where "SPEECH_BALLOON = utf8 [0xF0, 0x9F, 0x92, 0xAC]"
definition FILE_FOLDER :: string where "FILE_FOLDER = utf8 [0xF0, 0x9F, 0x93, 0x81]"
definition GEAR :: string where "GEAR = utf8 [0xE2, 0x9A, 0x99, 0xEF, 0xB8, 0x8F]"
definition ROCKET :: string where "ROCKET = utf8 [0xF0, 0x9F, 0x9A, 0x80]"
definition ARROWS :: string where "ARROWS = utf8 [0xF0, 0x9F, 0x94, 0x84]"
definition SLEEPING_FACE :: string where "SLEEPING_FACE = utf8 [0xF0, 0x9F, 0x98, 0xB4]"
definition SPEAKER_HIGH :: string where "SPEAKER_HIGH = utf8 [0xF0, 0x9F, 0x94, 0x8A]"
definition SPEAKER_LOW :: string where "SPEAKER_LOW = utf8 [0xF0, 0x9F, 0x94, 0x89]"
definition SPEAKER_OFF :: string where "SPEAKER_OFF = utf8 [0xF0, 0x9F, 0x94, 0x87]"
definition CROSS_MARK :: string where "CROSS_MARK = utf8 [0xE2, 0x9D, 0x8C]"
definition COMPUTER :: string where "COMPUTER = utf8 [0xF0, 0x9F, 0x92, 0xBB]"
definition DESKTOP :: string where "DESKTOP = utf8 [0xF0, 0x9F, 0x96, 0xA5, 0xEF, 0xB8, 0x8F]"
definition BRAIN :: string where "BRAIN = utf8 [0xF0, 0x9F, 0xA7, 0xA0]"
definition CLIPBOARD :: string where "CLIPBOARD = utf8 [0xF0, 0x9F, 0x93, 0x8B]"
definition BAR_CHART :: string where "BAR_CHART = utf8 [0xF0, 0x9F, 0x93, 0x8A]"
definition SQUARED_FREE :: string where "SQUARED_FREE = utf8 [0xF0, 0x9F, 0x86, 0x93]"
definition FLOPPY_DISK :: string where "FLOPPY_DISK = utf8 [0xF0, 0x9F, 0x92, 0xBE]"
definition HIGH_VOLTAGE :: string where "HIGH_VOLTAGE = utf8 [0xE2, 0x9A, 0xA1]"
definition WRENCH :: string where "WRENCH = utf8 [0xF0, 0x9F, 0x94, 0xA7]"
definition NUMBERS :: string where "NUMBERS = utf8 [0xF0, 0x9F, 0x94, 0xA2]"
definition GLOBE :: string where "GLOBE = utf8 [0xF0, 0x9F, 0x8C, 0x90]"
definition ANTENNA :: string where "ANTENNA = utf8 [0xF0, 0x9F, 0x93, 0xA1]"
definition BATTERY :: string where "BATTERY = utf8 [0xF0, 0x9F, 0x94, 0x8B]"
definition THERMOMETER :: string where "THERMOMETER = utf8 [0xF0, 0x9F, 0x8C, 0xA1, 0xEF, 0xB8, 0x8F]"

definition on_platform :: "host \<Rightarrow> 'a \<Rightarrow> 'a \<Rightarrow> 'a \<Rightarrow> 'a" where
  \<comment> \<open>the three-way choice on \<open>os.platform()\<close>: \<open>win32\<close>, \<open>darwin\<close>, anything else\<close>
  "on_platform h win mac other =
     (if platform h = ''win32'' then win else if platform h = ''darwin'' then mac else other)"

definition executeCommand :: "host \<Rightarrow> string \<Rightarrow> js_error + string" where
  "executeCommand h command =
     (case exec h command of
        ExecFailed e \<Rightarrow> Inl e
      | ExecDone out err \<Rightarrow> Inr (if out \<noteq> [] then out else if err \<noteq> [] then err else ''No output''))"

definition execOrReject :: "host \<Rightarrow> string \<Rightarrow> string \<Rightarrow> js_error + unit" where
  \<comment> \<open>the promise around \<open>exec(command, callback)\<close> that the launching helpers share: exit
      code 127 is replaced by a new \<open>Error\<close> with the helper's own message\<close>
  "execOrReject h command notFound =
     (case exec h command of
        ExecFailed e \<Rightarrow> (if code e = ExitCode 127 then Inl (new_Error notFound) else Inl e)
      | ExecDone out err \<Rightarrow> Inr ())"

section \<open>The helpers of \<open>CommandProcessor\<close>\<close>

subsection \<open>Information queries\<close>

definition getSystemInfo :: "host \<Rightarrow> js_error + string" where
  "getSystemInfo h =
     (let osInfo =
        (case executeCommand h
                (on_platform h ''wmic os get Caption,Version /format:list'' ''sw_vers''
                   ''lsb_release -a 2>/dev/null || cat /etc/os-release'') of
           Inr out \<Rightarrow> out
         | Inl e \<Rightarrow> platform h @ '' '' @ arch h)
      in Inr (COMPUTER @ '' System Information:'' @ nl
              @ DESKTOP @ '' Hostname: '' @ hostname h @ nl
              @ GEAR @ '' Platform: '' @ platform h @ '' ('' @ arch h @ '')'' @ nl
              @ CLOCK_FACE @ '' Uptime: '' @ string_of_nat (uptime h div 3600) @ '' hours'' @ nl
              @ BRAIN @ '' Memory: '' @ usedGB_of_strings h @ ''GB used / '' @ totalGB h
                  @ ''GB total ('' @ freeGB h @ ''GB free)'' @ nl
              @ CLIPBOARD @ '' OS Details: '' @ substring0 osInfo 200))"

definition getMemoryInfo :: "host \<Rightarrow> js_error + string" where
  "getMemoryInfo h =
     (let detailedInfo =
        (case executeCommand h
                (on_platform h ''wmic memorychip get Capacity,Speed,Manufacturer /format:list''
                   ''system_profiler SPMemoryDataType''
                   (''sudo dmidecode --type memory 2>/dev/null | grep -E '' @ dq
                      @ ''Size|Speed|Type:'' @ dq @ '' || free -h'')) of
           Inr out \<Rightarrow> out
         | Inl e \<Rightarrow> ''Detailed memory info not available'')
      in Inr (BRAIN @ '' Memory Information:'' @ nl
              @ BAR_CHART @ '' Total RAM: '' @ totalGB h @ '' GB'' @ nl
              @ CHECK_MARK @ '' Used: '' @ usedGB h @ '' GB ('' @ usagePercent h @ ''%)'' @ nl
              @ SQUARED_FREE @ '' Free: '' @ freeGB h @ '' GB'' @ nl
              @ CLIPBOARD @ '' Details: '' @ substring0 detailedInfo 300))"

definition getStorageInfo :: "host \<Rightarrow> js_error + string" where
  "getStorageInfo h =
     (let storageInfo =
        (case executeCommand h
                (on_platform h ''wmic logicaldisk get Size,FreeSpace,Caption /format:list''
                   ''df -h / && diskutil list'' ''df -h --total && lsblk'') of
           Inr out \<Rightarrow> out
         | Inl e \<Rightarrow> ''Storage information not available'')
      in Inr (FLOPPY_DISK @ '' Storage Information:'' @ nl @ storageInfo))"

definition getCPUInfo :: "host \<Rightarrow> js_error + string" where
  \<comment> \<open>\<open>cpus[0].model\<close> on an empty list reads a property of \<open>undefined\<close>: a \<open>TypeError\<close>,
      thrown before the inner \<open>try\<close>\<close>
  "getCPUInfo h =
     (case cpus h of
        [] \<Rightarrow> Inl (new_Error ''Cannot read properties of undefined (reading 'model')'')
      | c # cs \<Rightarrow>
          (let detailedInfo =
             (case executeCommand h
                     (on_platform h
                        ''wmic cpu get Name,NumberOfCores,NumberOfLogicalProcessors,MaxClockSpeed /format:list''
                        ''sysctl -n machdep.cpu.brand_string && sysctl -n hw.ncpu''
                        ''lscpu'') of
                Inr out \<Rightarrow> out
              | Inl e \<Rightarrow> ''Detailed CPU info not available'')
           in Inr (HIGH_VOLTAGE @ '' CPU Information:'' @ nl
                   @ WRENCH @ '' Model: '' @ model c @ nl
                   @ NUMBERS @ '' Cores: '' @ string_of_nat (length (cpus h)) @ nl
                   @ HIGH_VOLTAGE @ '' Speed: '' @ string_of_nat (speed c) @ '' MHz'' @ nl
                   @ CLIPBOARD @ '' Details: '' @ substring0 detailedInfo 400)))"

definition ifaceLines :: "string \<Rightarrow> iface list \<Rightarrow> string" where
  "ifaceLines name ifs =
     concat (map (\<lambda>i. ANTENNA @ '' '' @ name @ '': '' @ address i @ '' ('' @ family i @ '')'' @ nl)
               (filter (\<lambda>i. \<not> internal i) ifs))"

definition getNetworkInfo :: "host \<Rightarrow> js_error + string" where
  "getNetworkInfo h =
     (let networkInfo =
        GLOBE @ '' Network Information:'' @ nl
        @ concat (map (\<lambda>(name, interfaces).
                         case interfaces of None \<Rightarrow> [] | Some ifs \<Rightarrow> ifaceLines name ifs)
                    (networkInterfaces h))
      in case executeCommand h (if platform h = ''win32'' then ''ipconfig /all''
                                else ''ifconfig || ip addr show'') of
           Inr additionalInfo \<Rightarrow>
             Inr (networkInfo @ nl @ CLIPBOARD @ '' Details: '' @ substring0 additionalInfo 300)
         | Inl e \<Rightarrow>
             Inr (networkInfo @ nl @ CLIPBOARD @ '' Additional network details not available''))"

definition getBatteryInfo :: "host \<Rightarrow> js_error + string" where
  "getBatteryInfo h =
     (case executeCommand h
             (on_platform h
                ''wmic path Win32_Battery get EstimatedChargeRemaining,BatteryStatus /format:list''
                ''pmset -g batt''
                ''upower -i /org/freedesktop/UPower/devices/battery_BAT0 2>/dev/null || cat /sys/class/power_supply/BAT*/capacity 2>/dev/null'') of
        Inr batteryInfo \<Rightarrow>
          (if trim batteryInfo \<noteq> []
           then Inr (BATTERY @ '' Battery Information:'' @ nl @ batteryInfo)
           else Inr (BATTERY @ '' Battery: Not available (Desktop computer or battery info inaccessible)''))
      | Inl e \<Rightarrow> Inr (BATTERY @ '' Battery: Information not available''))"

definition getTemperatureInfo :: "host \<Rightarrow> js_error + string" where
  "getTemperatureInfo h =
     (case executeCommand h
             (on_platform h
                (''wmic /namespace:'' @ bs @ bs @ ''root'' @ bs
                   @ ''wmi PATH MSAcpi_ThermalZoneTemperature get CurrentTemperature /format:list'')
                (''sudo powermetrics --samplers smc -n 1 2>/dev/null | grep -i temp || echo '' @ dq
                   @ ''Temperature monitoring requires admin privileges'' @ dq)
                ''sensors 2>/dev/null || cat /sys/class/thermal/thermal_zone*/temp 2>/dev/null'') of
        Inr tempInfo \<Rightarrow>
          (if trim tempInfo \<noteq> []
           then Inr (THERMOMETER @ '' Temperature Information:'' @ nl @ tempInfo)
           else Inr (THERMOMETER @ '' Temperature: Sensors not available or require additional permissions''))
      | Inl e \<Rightarrow> Inr (THERMOMETER @ '' Temperature: Information not available''))"

subsection \<open>Launching helpers\<close>

definition lookupOr :: "(string \<times> string) list \<Rightarrow> string \<Rightarrow> string \<Rightarrow> string" where
  \<comment> \<open>\<open>table[key] || table.fallback\<close>, for the keys the code passes\<close>
  "lookupOr table key fallback =
     (case map_of table key of Some v \<Rightarrow> v | None \<Rightarrow> (case map_of table fallback of Some v \<Rightarrow> v | None \<Rightarrow> []))"

definition openWebsite :: "host \<Rightarrow> string \<Rightarrow> js_error + unit" where
  "openWebsite h url =
     (let fullUrl = (if startsWith url ''http'' then url else ''https://'' @ url) in
      execOrReject h
        (on_platform h (''start '' @ dq @ dq @ '' '' @ dq @ fullUrl @ dq)
           (''open '' @ dq @ fullUrl @ dq)
           (''xdg-open '' @ dq @ fullUrl @ dq))
        ''Web browser not found. Please ensure a web browser is installed and accessible.'')"

definition openWhatsAppCall :: "host \<Rightarrow> string \<Rightarrow> js_error + unit" where
  \<comment> \<open>on a failure the web client is opened and the promise resolved: the result of that
      \<open>openWebsite\<close> is not awaited\<close>
  "openWhatsAppCall h contact =
     (case exec h (on_platform h (''start whatsapp://call?phone='' @ encodeURIComponent contact)
                     (''open whatsapp://call?phone='' @ encodeURIComponent contact)
                     (''xdg-open whatsapp://call?phone='' @ encodeURIComponent contact)) of
        ExecFailed e \<Rightarrow> (let fallback = openWebsite h ''web.whatsapp.com'' in Inr ())
      | ExecDone out err \<Rightarrow> Inr ())"

definition openWhatsAppMessage :: "host \<Rightarrow> string \<Rightarrow> js_error + unit" where
  "openWhatsAppMessage h contact =
     (case exec h (on_platform h (''start whatsapp://send?phone='' @ encodeURIComponent contact)
                     (''open whatsapp://send?phone='' @ encodeURIComponent contact)
                     (''xdg-open whatsapp://send?phone='' @ encodeURIComponent contact)) of
        ExecFailed e \<Rightarrow> (let fallback = openWebsite h ''web.whatsapp.com'' in Inr ())
      | ExecDone out err \<Rightarrow> Inr ())"

definition winPaths :: "(string \<times> string) list" where
  "winPaths =
     [(''downloads'', ''%USERPROFILE%'' @ bs @ ''Downloads''),
      (''documents'', ''%USERPROFILE%'' @ bs @ ''Documents''),
      (''desktop'', ''%USERPROFILE%'' @ bs @ ''Desktop''),
      (''pictures'', ''%USERPROFILE%'' @ bs @ ''Pictures''),
      (''music'', ''%USERPROFILE%'' @ bs @ ''Music'')]"

definition macPaths :: "(string \<times> string) list" where
  "macPaths =
     [(''downloads'', ''~/Downloads''), (''documents'', ''~/Documents''),
      (''desktop'', ''~/Desktop''), (''pictures'', ''~/Pictures''), (''music'', ''~/Music'')]"

definition linuxPaths :: "(string \<times> string) list" where
  "linuxPaths =
     [(''downloads'', ''~/Downloads''), (''documents'', ''~/Documents''),
      (''desktop'', ''~/Desktop''), (''pictures'', ''~/Pictures''), (''music'', ''~/Music'')]"

definition openFileLocation :: "host \<Rightarrow> string \<Rightarrow> js_error + unit" where
  "openFileLocation h location =
     execOrReject h
       (on_platform h (''explorer '' @ dq @ lookupOr winPaths location ''downloads'' @ dq)
          (''open '' @ dq @ lookupOr macPaths location ''downloads'' @ dq)
          (''xdg-open '' @ dq @ lookupOr linuxPaths location ''downloads'' @ dq))
       ''File manager not found or not installed. Please ensure a file manager is installed and accessible.''"

definition winSettings :: "(string \<times> string) list" where
  "winSettings =
     [(''main'', ''ms-settings:''), (''network'', ''ms-settings:network''),
      (''display'', ''ms-settings:display''), (''sound'', ''ms-settings:sound''),
      (''bluetooth'', ''ms-settings:bluetooth''), (''privacy'', ''ms-settings:privacy''),
      (''update'', ''ms-settings:windowsupdate'')]"

definition macSettings :: "(string \<times> string) list" where
  "macSettings =
     [(''main'', ''open -b com.apple.systempreferences''),
      (''network'', ''open -b com.apple.systempreferences /System/Library/PreferencePanes/Network.prefPane''),
      (''display'', ''open -b com.apple.systempreferences /System/Library/PreferencePanes/Displays.prefPane''),
      (''sound'', ''open -b com.apple.systempreferences /System/Library/PreferencePanes/Sound.prefPane''),
      (''bluetooth'', ''open -b com.apple.systempreferences /System/Library/PreferencePanes/Bluetooth.prefPane'')]"

definition linuxSettings :: "(string \<times> string) list" where
  "linuxSettings =
     [(''main'', ''gnome-control-center || systemsettings5 || unity-control-center''),
      (''network'', ''gnome-control-center network || systemsettings5 kcm_networkmanagement''),
      (''display'', ''gnome-control-center display || systemsettings5 kcm_displayconfiguration''),
      (''sound'', ''gnome-control-center sound || systemsettings5 kcm_pulseaudio''),
      (''bluetooth'', ''gnome-control-center bluetooth || systemsettings5 kcm_bluetooth'')]"

definition openSettings :: "host \<Rightarrow> string \<Rightarrow> js_error + unit" where
  "openSettings h settingType =
     execOrReject h
       (on_platform h (''start '' @ lookupOr winSettings settingType ''main'')
          (lookupOr macSettings settingType ''main'')
          (lookupOr linuxSettings settingType ''main''))
       ''Settings application not found. Please ensure system settings are accessible.''"

definition winApps :: "(string \<times> string) list" where
  "winApps =
     [(''calculator'', ''calc''), (''notepad'', ''notepad''), (''filemanager'', ''explorer''),
      (''whatsapp'', ''start whatsapp:'')]"

definition macApps :: "(string \<times> string) list" where
  "macApps =
     [(''calculator'', ''open -a Calculator''), (''notepad'', ''open -a TextEdit''),
      (''filemanager'', ''open -a Finder''), (''whatsapp'', ''open -a WhatsApp'')]"

definition linuxApps :: "(string \<times> string) list" where
  "linuxApps =
     [(''calculator'', ''gnome-calculator || kcalc || xcalc''),
      (''notepad'', ''echo '' @ dq @ ''Text editor not available in this environment'' @ dq),
      (''filemanager'', ''echo '' @ dq @ ''File manager not available in this environment'' @ dq),
      (''whatsapp'', ''xdg-open https://web.whatsapp.com'')]"

definition openApplication :: "host \<Rightarrow> string \<Rightarrow> js_error + unit" where
  "openApplication h appName =
     (case map_of (on_platform h winApps macApps linuxApps) appName of
        Some command \<Rightarrow>
          execOrReject h command
            (''Application '' @ dq @ appName @ dq
               @ '' not found or not installed. Please ensure it's installed and in your system's PATH.'')
      | None \<Rightarrow>
          Inl (new_Error (''Application '' @ dq @ appName @ dq @ '' not available on this platform'')))"

definition systemShutdown :: "host \<Rightarrow> nat \<Rightarrow> js_error + unit" where
  \<comment> \<open>\<open>Math.ceil(seconds / 60)\<close> is \<open>(seconds + 59) div 60\<close> on the naturals\<close>
  "systemShutdown h seconds =
     execOrReject h
       (on_platform h (''shutdown /s /t '' @ string_of_nat seconds)
          (''sudo shutdown -h +'' @ string_of_nat ((seconds + 59) div 60))
          (''sudo shutdown -h +'' @ string_of_nat ((seconds + 59) div 60)))
       ''Shutdown command not available or requires administrator privileges.''"

definition systemRestart :: "host \<Rightarrow> js_error + unit" where
  "systemRestart h =
     execOrReject h (on_platform h ''shutdown /r /t 10'' ''sudo shutdown -r now'' ''sudo reboot'')
       ''Restart command not available or requires administrator privileges.''"

definition systemSleep :: "host \<Rightarrow> js_error + unit" where
  "systemSleep h =
     execOrReject h
       (on_platform h ''rundll32.exe powrprof.dll,SetSuspendState 0,1,0'' ''pmset sleepnow''
          ''systemctl suspend'')
       ''Sleep command not available or requires administrator privileges.''"

definition winCommands :: "(string \<times> string) list" where
  "winCommands =
     [(''up'', ''nircmd.exe changesysvolume 6553''), (''down'', ''nircmd.exe changesysvolume -6553''),
      (''mute'', ''nircmd.exe mutesysvolume 1'')]"

definition macCommands :: "(string \<times> string) list" where
  "macCommands =
     [(''up'', ''osascript -e '' @ dq
         @ ''set volume output volume (output volume of (get volume settings) + 10)'' @ dq),
      (''down'', ''osascript -e '' @ dq
         @ ''set volume output volume (output volume of (get volume settings) - 10)'' @ dq),
      (''mute'', ''osascript -e '' @ dq @ ''set volume output muted true'' @ dq)]"

definition linuxCommands :: "(string \<times> string) list" where
  "linuxCommands =
     [(''up'', ''amixer -D pulse sset Master 10%+''), (''down'', ''amixer -D pulse sset Master 10%-''),
      (''mute'', ''amixer -D pulse sset Master mute'')]"

definition adjustVolume :: "host \<Rightarrow> string \<Rightarrow> js_error + unit" where
  "adjustVolume h action =
     (case map_of (on_platform h winCommands macCommands linuxCommands) action of
        Some command \<Rightarrow>
          execOrReject h command
            ''Volume control not available. Please ensure audio system is properly configured.''
      | None \<Rightarrow> Inl (new_Error ''Volume control not available on this platform''))"

definition win32_apps :: "(string \<times> string) list" where
  "win32_apps =
     [(''chrome'', ''start chrome''), (''firefox'', ''start firefox''), (''edge'', ''start msedge''),
      (''notepad'', ''notepad''), (''calculator'', ''calc''), (''paint'', ''mspaint''),
      (''word'', ''start winword''), (''excel'', ''start excel''),
      (''powerpoint'', ''start powerpnt''), (''outlook'', ''start outlook''),
      (''teams'', ''start ms-teams:''), (''zoom'', ''start zoommtg:''),
      (''discord'', ''start discord:''), (''spotify'', ''start spotify:''),
      (''steam'', ''start steam:''), (''vscode'', ''code''), (''photoshop'', ''start photoshop''),
      (''illustrator'', ''start illustrator''), (''premiere'', ''start premiere''),
      (''aftereffects'', ''start aftereffects'')]"

definition darwin_apps :: "(string \<times> string) list" where
  "darwin_apps =
     [(''chrome'', ''open -a '' @ dq @ ''Google Chrome'' @ dq), (''firefox'', ''open -a Firefox''),
      (''safari'', ''open -a Safari''), (''textedit'', ''open -a TextEdit''),
      (''calculator'', ''open -a Calculator''),
      (''word'', ''open -a '' @ dq @ ''Microsoft Word'' @ dq),
      (''excel'', ''open -a '' @ dq @ ''Microsoft Excel'' @ dq),
      (''powerpoint'', ''open -a '' @ dq @ ''Microsoft PowerPoint'' @ dq),
      (''outlook'', ''open -a '' @ dq @ ''Microsoft Outlook'' @ dq),
      (''teams'', ''open -a '' @ dq @ ''Microsoft Teams'' @ dq),
      (''zoom'', ''open -a zoom.us''), (''discord'', ''open -a Discord''),
      (''spotify'', ''open -a Spotify''), (''steam'', ''open -a Steam''),
      (''vscode'', ''open -a '' @ dq @ ''Visual Studio Code'' @ dq),
      (''photoshop'', ''open -a '' @ dq @ ''Adobe Photoshop'' @ dq),
      (''illustrator'', ''open -a '' @ dq @ ''Adobe Illustrator'' @ dq),
      (''premiere'', ''open -a '' @ dq @ ''Adobe Premiere Pro'' @ dq)]"

definition linux_apps :: "(string \<times> string) list" where
  "linux_apps =
     [(''chrome'', ''google-chrome || chromium-browser''), (''firefox'', ''firefox''),
      (''gedit'', ''gedit''), (''calculator'', ''gnome-calculator || kcalc''),
      (''libreoffice'', ''libreoffice''), (''writer'', ''libreoffice --writer''),
      (''calc'', ''libreoffice --calc''), (''impress'', ''libreoffice --impress''),
      (''thunderbird'', ''thunderbird''), (''discord'', ''discord''), (''spotify'', ''spotify''),
      (''steam'', ''steam''), (''vscode'', ''code''), (''gimp'', ''gimp''),
      (''inkscape'', ''inkscape'')]"

definition inheritedKeys :: "string list" where
  \<comment> \<open>the lower-case property names every object literal inherits from \<open>Object.prototype\<close>:
      \<open>platformApps[app]\<close> is a function or an object for them, not a string\<close>
  "inheritedKeys = [''constructor'', ''__proto__'']"

definition openSpecificApplication :: "host \<Rightarrow> string \<Rightarrow> js_error + unit" where
  \<comment> \<open>\<open>exec\<close> throws a \<open>TypeError\<close> for a command that is no string; thrown inside the
      promise's executor, it rejects the promise\<close>
  "openSpecificApplication h appName =
     (let app = toLowerCase appName in
      if app \<in> set inheritedKeys
      then Inl \<lparr>code = SysCode ''ERR_INVALID_ARG_TYPE'',
                message = ''The '' @ dq @ ''command'' @ dq @ '' argument must be of type string.''\<rparr>
      else
        execOrReject h
          (case map_of (on_platform h win32_apps darwin_apps linux_apps) app of
             Some command \<Rightarrow> command
           | None \<Rightarrow> on_platform h (''start '' @ appName) (''open -a '' @ dq @ appName @ dq) appName)
          (''Application '' @ dq @ appName @ dq
             @ '' not found or not installed. Please ensure it's installed and in your system's PATH.''))"

section \<open>Classification\<close>

text \<open>
  \<open>processCommand\<close> is one \<open>if / else if\<close> chain. The model splits it into the chain of the
  conditions, \<open>classify\<close>, which names the branch taken, and the bodies of the branches,
  \<open>perform\<close>. The rules are named after the comments of the source, in its order.
\<close>

datatype rule =
    OpenUrl | WebSearch | YouTube | TimeQuery | DateQuery | Weather | Calculator | Notepad
  | WhatsApp | FileManager | Settings | LaunchApp | Shutdown | Restart | Sleep
  | VolumeUp | VolumeDown | Mute | SystemInfo | MemoryInfo | StorageInfo | CpuInfo
  | NetworkInfo | BatteryInfo | TemperatureInfo | Unrecognized

fun matches :: "rule \<Rightarrow> string \<Rightarrow> bool" where
  "matches OpenUrl cmd =
     (str_includes cmd ''open'' \<and>
      (str_includes cmd ''.com'' \<or> str_includes cmd ''.org'' \<or> str_includes cmd ''.net''
       \<or> str_includes cmd ''.io''))"
| "matches WebSearch cmd = (str_includes cmd ''search'' \<or> str_includes cmd ''google'')"
| "matches YouTube cmd = str_includes cmd ''youtube''"
| "matches TimeQuery cmd = (str_includes cmd ''time'' \<or> str_includes cmd ''what time'')"
| "matches DateQuery cmd = (str_includes cmd ''date'' \<or> str_includes cmd ''what date'')"
| "matches Weather cmd = str_includes cmd ''weather''"
| "matches Calculator cmd = (str_includes cmd ''calculator'' \<or> str_includes cmd ''calc'')"
| "matches Notepad cmd = (str_includes cmd ''notepad'' \<or> str_includes cmd ''text editor'')"
| "matches WhatsApp cmd = (str_includes cmd ''whatsapp'' \<or> str_includes cmd ''open whatsapp'')"
| "matches FileManager cmd =
     (str_includes cmd ''file manager'' \<or> str_includes cmd ''explorer'' \<or> str_includes cmd ''files'')"
| "matches Settings cmd = (str_includes cmd ''settings'' \<or> str_includes cmd ''control panel'')"
| "matches LaunchApp cmd =
     (str_includes cmd ''open'' \<or> str_includes cmd ''launch'' \<or> str_includes cmd ''start'')"
| "matches Shutdown cmd = str_includes cmd ''shutdown''"
| "matches Restart cmd = (str_includes cmd ''restart'' \<or> str_includes cmd ''reboot'')"
| "matches Sleep cmd = (str_includes cmd ''sleep'' \<or> str_includes cmd ''hibernate'')"
| "matches VolumeUp cmd = (str_includes cmd ''volume up'' \<or> str_includes cmd ''increase volume'')"
| "matches VolumeDown cmd = (str_includes cmd ''volume down'' \<or> str_includes cmd ''decrease volume'')"
| "matches Mute cmd = (str_includes cmd ''mute'' \<or> str_includes cmd ''volume off'')"
| "matches SystemInfo cmd =
     (str_includes cmd ''system info'' \<or> str_includes cmd ''system information''
      \<or> str_includes cmd ''computer specs'')"
| "matches MemoryInfo cmd = (str_includes cmd ''ram'' \<or> str_includes cmd ''memory'')"
| "matches StorageInfo cmd =
     (str_includes cmd ''storage'' \<or> str_includes cmd ''disk space'' \<or> str_includes cmd ''hard drive'')"
| "matches CpuInfo cmd = (str_includes cmd ''cpu'' \<or> str_includes cmd ''processor'')"
| "matches NetworkInfo cmd =
     (str_includes cmd ''network'' \<or> str_includes cmd ''ip address'' \<or> str_includes cmd ''wifi'')"
| "matches BatteryInfo cmd =
     (str_includes cmd ''battery'' \<and> (str_includes cmd ''laptop'' \<or> str_includes cmd ''computer''))"
| "matches TemperatureInfo cmd =
     (str_includes cmd ''temperature'' \<and> (str_includes cmd ''cpu'' \<or> str_includes cmd ''system''))"
| "matches Unrecognized cmd = True"

definition classify :: "string \<Rightarrow> rule" where
  "classify cmd =
     (if matches OpenUrl cmd then OpenUrl
      else if matches WebSearch cmd then WebSearch
      else if matches YouTube cmd then YouTube
      else if matches TimeQuery cmd then TimeQuery
      else if matches DateQuery cmd then DateQuery
      else if matches Weather cmd then Weather
      else if matches Calculator cmd then Calculator
      else if matches Notepad cmd then Notepad
      else if matches WhatsApp cmd then WhatsApp
      else if matches FileManager cmd then FileManager
      else if matches Settings cmd then Settings
      else if matches LaunchApp cmd then LaunchApp
      else if matches Shutdown cmd then Shutdown
      else if matches Restart cmd then Restart
      else if matches Sleep cmd then Sleep
      else if matches VolumeUp cmd then VolumeUp
      else if matches VolumeDown cmd then VolumeDown
      else if matches Mute cmd then Mute
      else if matches SystemInfo cmd then SystemInfo
      else if matches MemoryInfo cmd then MemoryInfo
      else if matches StorageInfo cmd then StorageInfo
      else if matches CpuInfo cmd then CpuInfo
      else if matches NetworkInfo cmd then NetworkInfo
      else if matches BatteryInfo cmd then BatteryInfo
      else if matches TemperatureInfo cmd then TemperatureInfo
      else Unrecognized)"


section \<open>\<open>CommandProcessor.processCommand\<close>\<close>

record outcome =
  status :: string
  response :: string

definition succeed :: "string \<Rightarrow> js_error + outcome" where
  \<comment> \<open>the end of a branch that set \<open>response\<close>: \<open>status\<close> still holds its initial value\<close>
  "succeed r = Inr \<lparr>status = ''success'', response = r\<rparr>"

definition andThen :: "js_error + 'a \<Rightarrow> ('a \<Rightarrow> js_error + 'b) \<Rightarrow> js_error + 'b" where
  \<comment> \<open>\<open>await\<close> inside the \<open>try\<close> block: a rejection leaves the block\<close>
  "andThen r k = (case r of Inl e \<Rightarrow> Inl e | Inr v \<Rightarrow> k v)"

definition shutdownSeconds :: "string \<Rightarrow> nat" where
  \<comment> \<open>the duration the shutdown branch computes from \<open>timeMatch\<close>\<close>
  "shutdownSeconds cmd =
     (case timeMatch cmd of
        None \<Rightarrow> 60
      | Some (digits, unit) \<Rightarrow>
          (if startsWith unit ''minute'' then parseInt digits * 60 else parseInt digits))"

definition guidance :: string where
  \<comment> \<open>the message of the default case\<close>
  "guidance =
     CROSS_MARK @ '' Command not recognized. Try: '' @ dq @ ''open google.com'' @ dq
       @ '', '' @ dq @ ''search weather'' @ dq @ '', '' @ dq @ ''open calculator'' @ dq
       @ '', or '' @ dq @ ''what time is it'' @ dq"

fun perform :: "host \<Rightarrow> string \<Rightarrow> rule \<Rightarrow> js_error + outcome" where
  "perform h cmd OpenUrl =
     (case urlMatch cmd of
        Some url \<Rightarrow> andThen (openWebsite h url) (\<lambda>_. succeed (CHECK_MARK @ '' Opening '' @ url))
      | None \<Rightarrow> succeed [])"
| "perform h cmd WebSearch =
     (let searchTerm = trim (removeAll [''search'', ''google''] cmd) in
      if searchTerm \<noteq> []
      then andThen (openWebsite h (''google.com/search?q='' @ encodeURIComponent searchTerm))
             (\<lambda>_. succeed (CHECK_MARK @ '' Searching Google for: '' @ searchTerm))
      else succeed [])"
| "perform h cmd YouTube =
     (let searchTerm = trim (removeAll [''youtube'', ''search'', ''on''] cmd) in
      if searchTerm \<noteq> []
      then andThen (openWebsite h (''youtube.com/results?search_query='' @ encodeURIComponent searchTerm))
             (\<lambda>_. succeed (CHECK_MARK @ '' Searching YouTube for: '' @ searchTerm))
      else andThen (openWebsite h ''youtube.com'') (\<lambda>_. succeed (CHECK_MARK @ '' Opening YouTube'')))"
| "perform h cmd TimeQuery = succeed (CLOCK_FACE @ '' Current time: '' @ localeTimeString h)"
| "perform h cmd DateQuery = succeed (CALENDAR @ '' Current date: '' @ localeDateString h)"
| "perform h cmd Weather =
     andThen (openWebsite h ''weather.com'') (\<lambda>_. succeed (SUN_CLOUD @ '' Opening weather information''))"
| "perform h cmd Calculator =
     andThen (openApplication h ''calculator'') (\<lambda>_. succeed (ABACUS @ '' Opening calculator''))"
| "perform h cmd Notepad =
     andThen (openApplication h ''notepad'') (\<lambda>_. succeed (MEMO @ '' Opening text editor''))"
| "perform h cmd WhatsApp =
     (if str_includes cmd ''call'' \<and>
         (str_includes cmd ''mom'' \<or> str_includes cmd ''dad'' \<or> str_includes cmd ''friend'')
      then (let contact = (if str_includes cmd ''mom'' then ''Mom''
                           else if str_includes cmd ''dad'' then ''Dad'' else ''Friend'')
            in andThen (openWhatsAppCall h contact)
                 (\<lambda>_. succeed (TELEPHONE @ '' Calling '' @ contact @ '' on WhatsApp'')))
      else if str_includes cmd ''message'' \<or> str_includes cmd ''text''
      then (let contact = (case contactMatch cmd of Some c \<Rightarrow> c | None \<Rightarrow> ''contact'')
            in andThen (openWhatsAppMessage h contact)
                 (\<lambda>_. succeed (SPEECH_BALLOON @ '' Opening WhatsApp chat with '' @ contact)))
      else andThen (openApplication h ''whatsapp'')
             (\<lambda>_. succeed (SPEECH_BALLOON @ '' Opening WhatsApp'')))"
| "perform h cmd FileManager =
     (if str_includes cmd ''downloads''
      then andThen (openFileLocation h ''downloads'')
             (\<lambda>_. succeed (FILE_FOLDER @ '' Opening Downloads folder''))
      else if str_includes cmd ''documents''
      then andThen (openFileLocation h ''documents'')
             (\<lambda>_. succeed (FILE_FOLDER @ '' Opening Documents folder''))
      else if str_includes cmd ''desktop''
      then andThen (openFileLocation h ''desktop'')
             (\<lambda>_. succeed (FILE_FOLDER @ '' Opening Desktop folder''))
      else andThen (openApplication h ''filemanager'')
             (\<lambda>_. succeed (FILE_FOLDER @ '' Opening File Manager'')))"
| "perform h cmd Settings =
     (if str_includes cmd ''wifi'' \<or> str_includes cmd ''network''
      then andThen (openSettings h ''network'') (\<lambda>_. succeed (GEAR @ '' Opening Network Settings''))
      else if str_includes cmd ''display'' \<or> str_includes cmd ''screen''
      then andThen (openSettings h ''display'') (\<lambda>_. succeed (GEAR @ '' Opening Display Settings''))
      else if str_includes cmd ''sound'' \<or> str_includes cmd ''audio''
      then andThen (openSettings h ''sound'') (\<lambda>_. succeed (GEAR @ '' Opening Sound Settings''))
      else if str_includes cmd ''bluetooth''
      then andThen (openSettings h ''bluetooth'') (\<lambda>_. succeed (GEAR @ '' Opening Bluetooth Settings''))
      else andThen (openSettings h ''main'') (\<lambda>_. succeed (GEAR @ '' Opening System Settings'')))"
| "perform h cmd LaunchApp =
     (case appMatch cmd of
        Some captured \<Rightarrow>
          (let appName = trim captured in
           andThen (openSpecificApplication h appName) (\<lambda>_. succeed (ROCKET @ '' Opening '' @ appName)))
      | None \<Rightarrow> succeed [])"
| "perform h cmd Shutdown =
     (let seconds = shutdownSeconds cmd in
      andThen (systemShutdown h seconds)
        (\<lambda>_. succeed (WARNING_SIGN @ '' System will shutdown in '' @ string_of_nat seconds @ '' seconds'')))"
| "perform h cmd Restart =
     andThen (systemRestart h) (\<lambda>_. succeed (ARROWS @ '' System restart initiated''))"
| "perform h cmd Sleep =
     andThen (systemSleep h) (\<lambda>_. succeed (SLEEPING_FACE @ '' System going to sleep''))"
| "perform h cmd VolumeUp =
     andThen (adjustVolume h ''up'') (\<lambda>_. succeed (SPEAKER_HIGH @ '' Volume increased''))"
| "perform h cmd VolumeDown =
     andThen (adjustVolume h ''down'') (\<lambda>_. succeed (SPEAKER_LOW @ '' Volume decreased''))"
| "perform h cmd Mute =
     andThen (adjustVolume h ''mute'') (\<lambda>_. succeed (SPEAKER_OFF @ '' Volume muted''))"
| "perform h cmd SystemInfo = andThen (getSystemInfo h) succeed"
| "perform h cmd MemoryInfo = andThen (getMemoryInfo h) succeed"
| "perform h cmd StorageInfo = andThen (getStorageInfo h) succeed"
| "perform h cmd CpuInfo = andThen (getCPUInfo h) succeed"
| "perform h cmd NetworkInfo = andThen (getNetworkInfo h) succeed"
| "perform h cmd BatteryInfo = andThen (getBatteryInfo h) succeed"
| "perform h cmd TemperatureInfo = andThen (getTemperatureInfo h) succeed"
| "perform h cmd Unrecognized = Inr \<lparr>status = ''error'', response = guidance\<rparr>"

definition onError :: "js_error \<Rightarrow> js_error + outcome" where
  \<comment> \<open>the \<open>catch\<close> block; \<open>error.message\<close> is a string for every error the helpers raise, so
      \<open>includes\<close> on it cannot throw\<close>
  "onError error =
     Inr \<lparr>status = ''error'',
          response =
            (if code error = ExitCode 127
             then CROSS_MARK @ '' Application not found or not installed. Please ensure the requested application is installed and accessible.''
             else if str_includes (message error) ''ENOENT''
             then CROSS_MARK @ '' Command not available on this system. This feature may require additional software installation.''
             else if str_includes (message error) ''permission''
             then CROSS_MARK @ '' Permission denied. This command may require administrator privileges.''
             else CROSS_MARK @ '' Error executing command: '' @ message error)\<rparr>"

definition processCommand :: "host \<Rightarrow> string \<Rightarrow> string \<Rightarrow> js_error + outcome" where
  \<comment> \<open>\<open>Inl\<close> is an exception that leaves \<open>processCommand\<close>; \<open>userAgent\<close> is not read\<close>
  "processCommand h commandText userAgent =
     (let cmd = trim (toLowerCase commandText) in
      case perform h cmd (classify cmd) of
        Inr result \<Rightarrow> Inr result
      | Inl error \<Rightarrow> onError error)"

section \<open>Command history: MongoDB with the in-memory fallback\<close>

text \<open>
  \<open>commandData\<close> is the object the route \<open>POST /api/execute\<close> passes to \<open>saveCommand\<close>: the
  outcome of the command with its text, its type and the user agent. A \<open>command\<close> is a
  stored record: the fields a record lacks (an in-memory record has no \<open>platform\<close> and no
  \<open>__v\<close>, a projected document no \<open>userAgent\<close>) are \<open>None\<close>.
\<close>

record commandData = outcome +
  cmd_text :: string
  cmd_type :: string
  userAgent :: "string option"

record command = commandData +
  cmd_id :: string
  timestamp :: nat
  cmd_platform :: "string option"
  version :: "nat option"

record storage =
  dbInitialized :: bool
  mongoConnected :: bool
  inMemoryCommands :: "command list"
  collection :: "command list"

text \<open>
  What one call reads from outside the module: the clock (\<open>Date.now()\<close> and \<open>new Date()\<close>, in
  milliseconds), the \<open>_id\<close> mongoose gives a new document, whether the MongoDB operation of
  the call succeeds, and the schema's default platform.
\<close>

record env =
  dateNow :: nat
  newDate :: nat
  objectId :: string
  mongoOk :: bool
  schemaPlatform :: string

definition initialStorage :: storage where
  "initialStorage =
     \<lparr>dbInitialized = False, mongoConnected = False, inMemoryCommands = [], collection = []\<rparr>"

definition document :: "env \<Rightarrow> commandData \<Rightarrow> command" where
  \<comment> \<open>\<open>new Command(commandData)\<close>, with the defaults of \<open>commandSchema\<close>\<close>
  "document e cd =
     \<lparr>status = status cd, response = response cd, cmd_text = cmd_text cd, cmd_type = cmd_type cd,
      userAgent = userAgent cd, cmd_id = objectId e, timestamp = dateNow e,
      cmd_platform = Some (schemaPlatform e), version = Some 0\<rparr>"

definition memoryRecord :: "env \<Rightarrow> commandData \<Rightarrow> command" where
  \<comment> \<open>\<open>{ _id: Date.now().toString(), ...commandData, timestamp: new Date() }\<close>\<close>
  "memoryRecord e cd =
     \<lparr>status = status cd, response = response cd, cmd_text = cmd_text cd, cmd_type = cmd_type cd,
      userAgent = userAgent cd, cmd_id = string_of_nat (dateNow e), timestamp = newDate e,
      cmd_platform = None, version = None\<rparr>"

definition saveInMemory :: "env \<Rightarrow> commandData \<Rightarrow> storage \<Rightarrow> command \<times> storage" where
  \<comment> \<open>the fallback of \<open>saveCommand\<close>: \<open>unshift\<close>, then \<open>slice(0, 100)\<close> of a longer list\<close>
  "saveInMemory e cd s =
     (let command = memoryRecord e cd;
          unshifted = command # inMemoryCommands s
      in (command,
          s\<lparr>inMemoryCommands := (if length unshifted > 100 then take 100 unshifted else unshifted)\<rparr>))"

definition saveCommand :: "env \<Rightarrow> commandData \<Rightarrow> storage \<Rightarrow> (command \<times> storage) option" where
  \<comment> \<open>\<open>None\<close>: the call is still waiting for \<open>dbInitialized\<close>\<close>
  "saveCommand e cd s =
     (if \<not> dbInitialized s then None
      else if mongoConnected s
      then (if mongoOk e
            then Some (document e cd, s\<lparr>collection := collection s @ [document e cd]\<rparr>)
            else Some (saveInMemory e cd (s\<lparr>mongoConnected := False\<rparr>)))
      else Some (saveInMemory e cd s))"

definition slice0 :: "'a list \<Rightarrow> int \<Rightarrow> 'a list" where
  \<comment> \<open>\<open>xs.slice(0, n)\<close>: a negative \<open>n\<close> counts from the end\<close>
  "slice0 xs n = (if n < 0 then take (nat (int (length xs) + n)) xs else take (nat n) xs)"

definition selected :: "command \<Rightarrow> command" where
  \<comment> \<open>\<open>.select('-userAgent -__v')\<close>\<close>
  "selected c = c\<lparr>userAgent := None, version := None\<rparr>"

definition findSorted :: "command list \<Rightarrow> int \<Rightarrow> command list" where
  \<comment> \<open>\<open>Command.find().sort({ timestamp: -1 }).limit(limit).select(...)\<close>; MongoDB reads a
      limit of 0 as no limit and a negative one as its absolute value\<close>
  "findSorted docs limit =
     (let sorted = rev (sort_key timestamp docs)
      in map selected (if limit = 0 then sorted else take (nat \<bar>limit\<bar>) sorted))"

definition getCommands :: "env \<Rightarrow> int \<Rightarrow> storage \<Rightarrow> (command list \<times> storage) option" where
  "getCommands e limit s =
     (if \<not> dbInitialized s then None
      else if mongoConnected s
      then (if mongoOk e
            then Some (findSorted (collection s) limit, s)
            else Some (slice0 (inMemoryCommands s) limit, s\<lparr>mongoConnected := False\<rparr>))
      else Some (slice0 (inMemoryCommands s) limit, s))"

definition clearCommands :: "env \<Rightarrow> storage \<Rightarrow> storage option" where
  "clearCommands e s =
     (if \<not> dbInitialized s then None
      else if mongoConnected s
      then (if mongoOk e
            then Some (s\<lparr>collection := []\<rparr>)
            else Some (s\<lparr>mongoConnected := False, inMemoryCommands := []\<rparr>))
      else Some (s\<lparr>inMemoryCommands := []\<rparr>))"

datatype event =
    Initialized bool
  | ConnectionError
  | Connected
  | Save env commandData
  | History env int
  | Clear env

fun step :: "event \<Rightarrow> storage \<Rightarrow> storage" where
  \<comment> \<open>everything that writes the three module variables: the end of \<open>connectToMongoDB\<close>, the
      two connection events, and the three operations\<close>
  "step (Initialized connected) s = s\<lparr>mongoConnected := connected, dbInitialized := True\<rparr>"
| "step ConnectionError s = s\<lparr>mongoConnected := False\<rparr>"
| "step Connected s = s\<lparr>mongoConnected := True\<rparr>"
| "step (Save e cd) s = (case saveCommand e cd s of Some (c, s') \<Rightarrow> s' | None \<Rightarrow> s)"
| "step (History e limit) s = (case getCommands e limit s of Some (cs, s') \<Rightarrow> s' | None \<Rightarrow> s)"
| "step (Clear e) s = (case clearCommands e s of Some s' \<Rightarrow> s' | None \<Rightarrow> s)"

fun run :: "event list \<Rightarrow> storage \<Rightarrow> storage" where
  "run [] s = s"
| "run (ev # evs) s = run evs (step ev s)"

fun saveAll :: "(env \<times> commandData) list \<Rightarrow> storage \<Rightarrow> storage" where
  \<comment> \<open>one \<open>saveCommand\<close> after the other\<close>
  "saveAll [] s = s"
| "saveAll ((e, cd) # rest) s =
     (case saveCommand e cd s of Some (c, s') \<Rightarrow> saveAll rest s' | None \<Rightarrow> s)"

section \<open>The duration as the specification words it\<close>



section \<open>Example inputs\<close>


definition degradedStorage :: storage where
  \<comment> \<open>initialised, MongoDB not reachable, nothing saved yet\<close>
  "degradedStorage =
     \<lparr>dbInitialized = True, mongoConnected = False, inMemoryCommands = [], collection = []\<rparr>"

definition connectedStorage :: storage where
  "connectedStorage =
     \<lparr>dbInitialized = True, mongoConnected = True, inMemoryCommands = [], collection = []\<rparr>"

definition exampleData :: "string \<Rightarrow> commandData" where
  "exampleData t =
     \<lparr>status = ''success'', response = ''ok'', cmd_text = t, cmd_type = ''text'',
      userAgent = Some ''Mozilla/5.0''\<rparr>"

definition exampleEnv :: "nat \<Rightarrow> env" where
  \<comment> \<open>a call at clock reading \<open>t\<close> during which MongoDB fails\<close>
  "exampleEnv t =
     \<lparr>dateNow = t, newDate = t, objectId = ''65a1b2c3d4e5f6a7b8c9d0e1'', mongoOk = False,
      schemaPlatform = ''linux''\<rparr>"

definition requests101 :: "(env \<times> commandData) list" where
  \<comment> \<open>101 saves, one millisecond apart\<close>
  "requests101 =
     map (\<lambda>n. (exampleEnv (1700000000000 + n), exampleData (string_of_nat n))) [0..<101]"

section \<open>Auxiliary predicates\<close>


section \<open>The outcome of \<open>processCommand\<close>\<close>










section \<open>The rule chain\<close>



















section \<open>The duration of a shutdown\<close>


















section \<open>The storage layer\<close>

lemma take_capacity:
  "(if length (c # xs) > 100 then take 100 (c # xs) else c # xs) = take 100 (c # xs)"
  by simp

lemma saveInMemory_eq:
  "saveInMemory e cd s =
     (memoryRecord e cd, s\<lparr>inMemoryCommands := take 100 (memoryRecord e cd # inMemoryCommands s)\<rparr>)"
  unfolding saveInMemory_def Let_def take_capacity ..

lemma saveCommand_degraded:
  "dbInitialized s \<Longrightarrow> \<not> mongoConnected s \<Longrightarrow>
   saveCommand e cd s =
     Some (memoryRecord e cd, s\<lparr>inMemoryCommands := take 100 (memoryRecord e cd # inMemoryCommands s)\<rparr>)"
  by (simp add: saveCommand_def saveInMemory_eq)

text \<open>
  Claim C3. Once the storage is initialised: a save that finds \<open>mongoConnected\<close> set and
  whose MongoDB write fails clears \<open>mongoConnected\<close> in the same call, puts the record at
  the head of the in-memory list and returns it, with the text, type, status, response
  and user agent it was given; the caller gets a record, not the failure.
\<close>

theorem save_falls_back_to_memory:
  assumes "dbInitialized s" and "mongoConnected s" and "\<not> mongoOk e"
  shows "saveCommand e cd s =
           Some (memoryRecord e cd,
                 s\<lparr>mongoConnected := False,
                   inMemoryCommands := take 100 (memoryRecord e cd # inMemoryCommands s)\<rparr>)
       \<and> memoryRecord e cd \<in> set (take 100 (memoryRecord e cd # inMemoryCommands s))
       \<and> cmd_text (memoryRecord e cd) = cmd_text cd \<and> cmd_type (memoryRecord e cd) = cmd_type cd
       \<and> status (memoryRecord e cd) = status cd \<and> response (memoryRecord e cd) = response cd
       \<and> userAgent (memoryRecord e cd) = userAgent cd"
  using assms by (simp add: saveCommand_def saveInMemory_eq memoryRecord_def)

theorem save_falls_back_to_memory_witness:
  "dbInitialized connectedStorage \<and> mongoConnected connectedStorage
   \<and> \<not> mongoOk (exampleEnv 1700000000000)
   \<and> saveCommand (exampleEnv 1700000000000) (exampleData ''open calculator'') connectedStorage
       = Some (memoryRecord (exampleEnv 1700000000000) (exampleData ''open calculator''),
               \<lparr>dbInitialized = True, mongoConnected = False,
                inMemoryCommands = [memoryRecord (exampleEnv 1700000000000) (exampleData ''open calculator'')],
                collection = []\<rparr>)"
  using save_falls_back_to_memory [of connectedStorage "exampleEnv 1700000000000" "exampleData ''open calculator''"]
  by (simp add: connectedStorage_def exampleEnv_def)

lemma step_capacity:
  "length (inMemoryCommands s) \<le> 100 \<Longrightarrow> length (inMemoryCommands (step ev s)) \<le> 100"
  by (cases ev)
     (auto simp: saveCommand_def saveInMemory_eq getCommands_def clearCommands_def split: if_splits)

lemma run_capacity:
  "length (inMemoryCommands s) \<le> 100 \<Longrightarrow> length (inMemoryCommands (run evs s)) \<le> 100"
  by (induction evs arbitrary: s) (simp_all add: step_capacity)

lemma take_append_take: "take n (xs @ take n ys) = take n (xs @ ys)"
  by (simp add: min_def)

lemma saveAll_degraded:
  "dbInitialized s \<Longrightarrow> \<not> mongoConnected s \<Longrightarrow> length (inMemoryCommands s) \<le> 100 \<Longrightarrow>
   saveAll reqs s =
     s\<lparr>inMemoryCommands := take 100 (rev (map (\<lambda>(e, cd). memoryRecord e cd) reqs) @ inMemoryCommands s)\<rparr>"
proof (induction reqs arbitrary: s)
  case Nil
  then show ?case by simp
next
  case (Cons req reqs)
  obtain e cd where req: "req = (e, cd)"
    by (cases req)
  let ?s' = "s\<lparr>inMemoryCommands := take 100 (memoryRecord e cd # inMemoryCommands s)\<rparr>"
  have "saveAll (req # reqs) s = saveAll reqs ?s'"
    using Cons.prems by (simp add: req saveCommand_degraded)
  also have "\<dots> = ?s'\<lparr>inMemoryCommands :=
        take 100 (rev (map (\<lambda>(e, cd). memoryRecord e cd) reqs) @ inMemoryCommands ?s')\<rparr>"
    using Cons.prems by (intro Cons.IH) simp_all
  also have "\<dots> = s\<lparr>inMemoryCommands :=
        take 100 (rev (map (\<lambda>(e, cd). memoryRecord e cd) (req # reqs)) @ inMemoryCommands s)\<rparr>"
    using take_append_take [of 100 "rev (map (\<lambda>(e, cd). memoryRecord e cd) reqs)"
        "memoryRecord e cd # inMemoryCommands s"]
    by (simp add: req)
  finally show ?case .
qed

text \<open>
  Claim C4. After any sequence of initialisation, connection events, saves, history
  reads and clears, from the start of the process, the in-memory list holds at most
  100 records. A save on the in-memory path puts the new record first and keeps the
  first 100. And 101 saves into an initialised store without MongoDB, its list empty,
  leave exactly 100 records: the last 100 saved, newest first, the first one gone.
\<close>

theorem buffer_capacity:
  "length (inMemoryCommands (run evs initialStorage)) \<le> 100
   \<and> (dbInitialized s \<and> \<not> mongoConnected s \<longrightarrow>
        saveCommand e cd s =
          Some (memoryRecord e cd,
                s\<lparr>inMemoryCommands := take 100 (memoryRecord e cd # inMemoryCommands s)\<rparr>))
   \<and> (dbInitialized s \<and> \<not> mongoConnected s \<and> inMemoryCommands s = [] \<and> length reqs = 101 \<longrightarrow>
        length (inMemoryCommands (saveAll reqs s)) = 100
        \<and> inMemoryCommands (saveAll reqs s) = rev (map (\<lambda>(e, cd). memoryRecord e cd) (tl reqs)))"
proof (intro conjI impI)
  show "length (inMemoryCommands (run evs initialStorage)) \<le> 100"
    by (rule run_capacity) (simp add: initialStorage_def)
next
  assume "dbInitialized s \<and> \<not> mongoConnected s"
  then show "saveCommand e cd s =
          Some (memoryRecord e cd,
                s\<lparr>inMemoryCommands := take 100 (memoryRecord e cd # inMemoryCommands s)\<rparr>)"
    by (simp add: saveCommand_degraded)
next
  assume a: "dbInitialized s \<and> \<not> mongoConnected s \<and> inMemoryCommands s = [] \<and> length reqs = 101"
  then obtain r rs where reqs: "reqs = r # rs" and rs: "length rs = 100"
    by (cases reqs) auto
  have "inMemoryCommands (saveAll reqs s) = take 100 (rev (map (\<lambda>(e, cd). memoryRecord e cd) reqs))"
    using a by (simp add: saveAll_degraded)
  also have "\<dots> = rev (map (\<lambda>(e, cd). memoryRecord e cd) rs)"
    using rs by (simp add: reqs)
  finally have eq: "inMemoryCommands (saveAll reqs s) = rev (map (\<lambda>(e, cd). memoryRecord e cd) (tl reqs))"
    by (simp add: reqs)
  show "length (inMemoryCommands (saveAll reqs s)) = 100"
    unfolding eq using rs by (simp add: reqs)
  show "inMemoryCommands (saveAll reqs s) = rev (map (\<lambda>(e, cd). memoryRecord e cd) (tl reqs))"
    by (rule eq)
qed

lemma requests101_length: "length requests101 = 101"
  by (simp add: requests101_def)

theorem buffer_capacity_witness:
  "dbInitialized degradedStorage \<and> \<not> mongoConnected degradedStorage
   \<and> inMemoryCommands degradedStorage = [] \<and> length requests101 = 101
   \<and> length (inMemoryCommands (saveAll requests101 degradedStorage)) = 100
   \<and> inMemoryCommands (saveAll requests101 degradedStorage)
       = rev (map (\<lambda>(e, cd). memoryRecord e cd) (tl requests101))"
  using buffer_capacity [of "[]" degradedStorage "exampleEnv 0" "exampleData []" requests101]
  by (simp add: degradedStorage_def requests101_length)

lemma findSorted_projects: "\<forall>c \<in> set (findSorted docs limit). userAgent c = None"
  by (auto simp: findSorted_def selected_def Let_def dest: in_set_takeD)

lemma history_from_mongo_omits_userAgent:
  "dbInitialized s \<Longrightarrow> mongoConnected s \<Longrightarrow> mongoOk e \<Longrightarrow> getCommands e limit s = Some (cs, s')
   \<Longrightarrow> \<forall>c \<in> set cs. userAgent c = None"
  using findSorted_projects by (auto simp: getCommands_def)

text \<open>
  Claim C5 does not hold of the code. The MongoDB query leaves \<open>userAgent\<close> out of every
  document it returns (\<open>history_from_mongo_omits_userAgent\<close>); the in-memory path
  returns the stored records as they are: a record saved with the user agent
  \<open>Mozilla/5.0\<close> while MongoDB is away comes back from \<open>getCommands\<close> with it.
\<close>

theorem history_in_memory_keeps_userAgent:
  "map_option (\<lambda>(cs, s'). map userAgent cs)
     (getCommands (exampleEnv 1700000000001) 50
        (saveAll [(exampleEnv 1700000000000, exampleData ''open calculator'')] degradedStorage))
   = Some [Some ''Mozilla/5.0'']"
  by (simp add: saveCommand_degraded degradedStorage_def getCommands_def slice0_def
        memoryRecord_def exampleData_def)

text \<open>
  Claim C8 does not hold of the code. The \<open>_id\<close> of an in-memory record is the clock
  reading \<open>Date.now()\<close> as a string and nothing else: two different commands saved
  within the same millisecond are two records with one \<open>_id\<close>.
\<close>

theorem memory_ids_collide:
  "(let cs = inMemoryCommands
       (saveAll [(exampleEnv 1700000000000, exampleData ''open calculator''),
                 (exampleEnv 1700000000000, exampleData ''what time is it'')] degradedStorage)
    in length cs = 2 \<and> cmd_id (cs ! 0) = cmd_id (cs ! 1) \<and> cmd_text (cs ! 0) \<noteq> cmd_text (cs ! 1))"
  by (simp add: saveCommand_degraded degradedStorage_def memoryRecord_def exampleEnv_def
        exampleData_def Let_def del: string_of_nat.simps)

text \<open>
  Claim C9 does not hold of the code. Three branches set \<open>response\<close> only under an \<open>if\<close>
  that has no \<open>else\<close>: on \<open>search\<close> (no search term is left), on \<open>open.com\<close> (the URL pattern
  does not match) and on \<open>restart\<close> (taken by the launch rule through \<open>start\<close>, whose
  pattern does not match) the outcome is a \<open>success\<close> with the empty response, on every
  host.
\<close>

theorem empty_response_on_success:
  "processCommand h ''search'' ua = Inr \<lparr>status = ''success'', response = []\<rparr>
   \<and> processCommand h ''open.com'' ua = Inr \<lparr>status = ''success'', response = []\<rparr>
   \<and> processCommand h ''restart'' ua = Inr \<lparr>status = ''success'', response = []\<rparr>"
  by code_simp

end
